theory Spec2Isabelle
  imports Main "HOL-Library.AList"
begin

section \<open>The scan-session relay of \<^verbatim>\<open>index.js\<close>\<close>

text \<open>
  The server keeps one module-level \<^verbatim>\<open>Map\<close>, \<^verbatim>\<open>activeSessions\<close>, from session id to a
  session object, and registers five socket handlers (\<^verbatim>\<open>session:start\<close>,
  \<^verbatim>\<open>scan:result\<close>, \<^verbatim>\<open>quantity:adjust\<close>, \<^verbatim>\<open>session:finish\<close>, \<^verbatim>\<open>ping\<close>) per connection.
  Each handler runs to completion; the only deferred code is the \<^verbatim>\<open>setTimeout\<close> callback
  of \<^verbatim>\<open>session:finish\<close>.

  Modelling decisions:
  \<^item> JavaScript numbers are modelled as \<open>int\<close>: the payload fields \<^verbatim>\<open>quantity\<close> and
    \<^verbatim>\<open>delta\<close> are integer valued (no fractions, no \<^verbatim>\<open>NaN\<close>, no strings in their place).
    A JavaScript number is a double, and doubles hold every integer up to \<open>2 ^ 53\<close> in
    magnitude but not every larger one. The scan handler accumulates \<^verbatim>\<open>quantity\<close> and
    \<^verbatim>\<open>totalPoints\<close> by separate additions (lines 105-109), so the relation between the
    two fields depends on how these additions round: they are modelled by \<open>js_add\<close> and
    \<open>js_mul\<close>, which round the exact result to the nearest double, ties to even (results
    of magnitude \<open>2 ^ 1024\<close> and more, which JavaScript turns into \<^verbatim>\<open>Infinity\<close>, are beyond
    the model). The other handlers store the value of a single expression; there the
    arithmetic is written over the integers.
  \<^item> An optional payload field is an \<open>option\<close>; \<open>None\<close> is \<^verbatim>\<open>undefined\<close>. A missing payload
    (\<^verbatim>\<open>data\<close> undefined) is the payload with every field \<open>None\<close>.
  \<^item> \<^verbatim>\<open>Date.now()\<close> is a parameter \<open>now\<close> of each handler (one reading per handler run);
    \<^verbatim>\<open>new Date().toISOString()\<close> is represented by the same reading.
  \<^item> Session ids and item names are strings (no other JavaScript value in their place).
  \<^item> The object \<^verbatim>\<open>session.items\<close> is an association list in insertion order with distinct
    keys; the \<^verbatim>\<open>Map\<close> of sessions is a partial function. JavaScript enumerates keys that
    look like array indices first; the handlers only sum over the values, so the order
    plays no role. Item keys are upper-cased, so none of them meets a property inherited
    from \<^verbatim>\<open>Object.prototype\<close>, whose names all contain a lower-case letter.
  \<^item> Every emitted message is recorded, in order, with its target: \<^verbatim>\<open>io.emit\<close> is a
    broadcast, \<^verbatim>\<open>socket.emit\<close> goes to the initiating connection only.
  \<^item> Pending \<^verbatim>\<open>setTimeout\<close> callbacks are part of the state, each with its due time and the
    session id its closure captured. \<^verbatim>\<open>console.log\<close> is not modelled.
\<close>

subsection \<open>Data\<close>

type_synonym socket_id = string
type_synonym time = int

text \<open>The object literal of lines 111-117.\<close>

record item_entry =
  name :: string
  quantity :: int
  pointsPerItem :: int
  totalPoints :: int
  lastScanned :: time

text \<open>
  The object literal of lines 68-76, with \<^verbatim>\<open>lastUpdate\<close>, which the scan and adjust handlers
  add later. Field \<^verbatim>\<open>id\<close> is \<open>id_sess\<close> and the session's \<^verbatim>\<open>totalPoints\<close> is
  \<open>totalPoints_sess\<close>, since \<open>id\<close> and the item's \<open>totalPoints\<close> are taken.
\<close>

record session =
  id_sess :: string
  items :: "(string \<times> item_entry) list"
  totalItems :: int
  totalPoints_sess :: int
  startTime :: time
  socketId :: socket_id
  active :: bool
  lastUpdate :: "time option"

record world =
  activeSessions :: "string \<rightharpoonup> session"
  timers :: "(time \<times> string) list"

definition initial_world :: world where
  "initial_world = \<lparr>activeSessions = Map.empty, timers = []\<rparr>"

subsection \<open>Messages\<close>

datatype target = Broadcast | Direct socket_id

text \<open>
  The \<^verbatim>\<open>session\<close> object sent inside \<^verbatim>\<open>scan:update\<close> and \<^verbatim>\<open>quantity:updated\<close>:
  totalItems, totalPoints, items, lastUpdate.
\<close>

type_synonym snapshot = "int \<times> int \<times> (string \<times> item_entry) list \<times> time"

text \<open>
  One constructor per outbound event name, the arguments in the order of the fields of the
  emitted object. The error event has the three fields the handlers use (message,
  sessionId, itemName); a field the object literal does not have, or whose value is
  \<^verbatim>\<open>undefined\<close>, is \<open>None\<close>.
\<close>

datatype out_event =
    ev_welcome string socket_id
  | ev_session_started string time string
  | ev_session_confirmed string string
  | ev_error string "string option" "string option"
  | ev_scan_update string item_entry snapshot
  | ev_inventory_update string string int time
  | ev_scan_confirmed bool item_entry int
  | ev_quantity_updated string string int snapshot
  | ev_session_finished string int int "(string \<times> item_entry) list" time time
  | ev_inventory_reset string
  | ev_pong time

type_synonym emission = "target \<times> out_event"

datatype inbound =
    session_start "string option"
  | scan_result "string option" "string option" "int option"
  | quantity_adjust "string option" "string option" int
  | session_finish "string option"
  | ping

datatype occurrence =
    Connection socket_id
  | Inbound socket_id time inbound
  | TimersPhase time

subsection \<open>JavaScript primitives the handlers use\<close>

text \<open>A string value is falsy when it is \<^verbatim>\<open>undefined\<close> or empty.\<close>

definition truthy :: "string option \<Rightarrow> bool" where
  "truthy v = (case v of None \<Rightarrow> False | Some s \<Rightarrow> s \<noteq> [])"

text \<open>\<^verbatim>\<open>String(v)\<close>.\<close>

definition String_of :: "string option \<Rightarrow> string" where
  "String_of v = (case v of None \<Rightarrow> ''undefined'' | Some s \<Rightarrow> s)"

text \<open>\<^verbatim>\<open>v || ""\<close>.\<close>

definition or_empty :: "string option \<Rightarrow> string option" where
  "or_empty v = (if truthy v then v else Some [])"

text \<open>
  \<^verbatim>\<open>toUpperCase\<close> on the ASCII letters; every other byte is left as it is (the Unicode
  case mappings outside ASCII are not modelled).
\<close>

definition toUpperCase_char :: "char \<Rightarrow> char" where
  "toUpperCase_char c =
     (if (97::nat) \<le> of_char c \<and> of_char c \<le> (122::nat)
      then char_of (of_char c - (32::nat)) else c)"

definition toUpperCase :: "string \<Rightarrow> string" where
  "toUpperCase s = map toUpperCase_char s"

text \<open>Decimal rendering of a number inside a template literal.\<close>

definition digit_char :: "nat \<Rightarrow> char" where
  "digit_char d = char_of (48 + d)"

fun digits :: "nat \<Rightarrow> string" where
  "digits n = (if n < 10 then [digit_char n] else digits (n div 10) @ [digit_char (n mod 10)])"

declare digits.simps [simp del]

definition String_num :: "int \<Rightarrow> string" where
  "String_num i = (if i < 0 then CHR ''-'' # digits (nat (- i)) else digits (nat i))"

text \<open>
  Addition and multiplication of integer-valued doubles. Every integer of magnitude at most
  \<open>2 ^ 53\<close> is a double. A larger one is rounded to the nearest double, which keeps 53
  significant bits: \<open>bit_length\<close> is the number of binary digits of a positive integer,
  and \<open>round_to_even u a\<close> rounds a non-negative \<open>a\<close> to a multiple of \<open>u\<close>, ties to the
  even multiple.
\<close>

definition exact_range :: "int \<Rightarrow> bool" where
  "exact_range x = (\<bar>x\<bar> \<le> 9007199254740992)"

function bit_length :: "int \<Rightarrow> nat" where
  "bit_length n = (if n \<le> 0 then 0 else Suc (bit_length (n div 2)))"
  by pat_completeness auto
termination
  by (relation "measure nat") auto

declare bit_length.simps [simp del]

definition round_to_even :: "int \<Rightarrow> int \<Rightarrow> int" where
  "round_to_even u a =
     (let q = a div u; r = a mod u in
      if 2 * r < u then q * u
      else if u < 2 * r then (q + 1) * u
      else if even q then q * u else (q + 1) * u)"

definition js_round :: "int \<Rightarrow> int" where
  "js_round x =
     (if exact_range x then x
      else if x < 0 then - round_to_even (2 ^ (bit_length (- x) - 53)) (- x)
      else round_to_even (2 ^ (bit_length x - 53)) x)"

definition js_add :: "int \<Rightarrow> int \<Rightarrow> int" where
  "js_add x y = js_round (x + y)"

definition js_mul :: "int \<Rightarrow> int \<Rightarrow> int" where
  "js_mul x y = js_round (x * y)"

text \<open>\<^verbatim>\<open>activeSessions.get(sessionId)\<close>: no session is ever stored under \<^verbatim>\<open>undefined\<close>.\<close>

definition activeSessions_get :: "world \<Rightarrow> string option \<Rightarrow> session option" where
  "activeSessions_get w sessionId =
     (case sessionId of None \<Rightarrow> None | Some i \<Rightarrow> activeSessions w i)"

text \<open>\<^verbatim>\<open>Object.values(o)\<close> and \<^verbatim>\<open>xs.reduce((s, it) => s + f(it), 0)\<close>.\<close>

definition Object_values :: "(string \<times> 'a) list \<Rightarrow> 'a list" where
  "Object_values obj = map snd obj"

definition reduce_sum :: "('a \<Rightarrow> int) \<Rightarrow> 'a list \<Rightarrow> int" where
  "reduce_sum f xs = foldl (\<lambda>s it. s + f it) 0 xs"

subsection \<open>The point system (lines 47-53, 104)\<close>

definition ITEM_POINTS :: "(string \<times> int) list" where
  "ITEM_POINTS =
     [(''APEL'', 20), (''JERUK'', 15), (''PISANG'', 10), (''MANGGA'', 25), (''DEFAULT'', 10)]"

text \<open>\<^verbatim>\<open>ITEM_POINTS[key] || ITEM_POINTS.DEFAULT\<close>: a missing entry and the number 0 are falsy.\<close>

definition ITEM_POINTS_DEFAULT :: int where
  "ITEM_POINTS_DEFAULT = (case map_of ITEM_POINTS ''DEFAULT'' of Some p \<Rightarrow> p | None \<Rightarrow> 0)"

definition perItem_of :: "string \<Rightarrow> int" where
  "perItem_of key =
     (case map_of ITEM_POINTS key of
        None \<Rightarrow> ITEM_POINTS_DEFAULT
      | Some p \<Rightarrow> if p \<noteq> 0 then p else ITEM_POINTS_DEFAULT)"

subsection \<open>\<^verbatim>\<open>session:start\<close> (lines 66-88)\<close>

definition start_id :: "socket_id \<Rightarrow> string option \<Rightarrow> time \<Rightarrow> string" where
  "start_id sock sessionId now =
     (case sessionId of
        None \<Rightarrow> ''session_'' @ sock @ ''_'' @ String_num now
      | Some s \<Rightarrow> if s \<noteq> [] then s else ''session_'' @ sock @ ''_'' @ String_num now)"

definition newSession :: "socket_id \<Rightarrow> string \<Rightarrow> time \<Rightarrow> session" where
  "newSession sock sessionId now =
     \<lparr>id_sess = sessionId, items = [], totalItems = 0, totalPoints_sess = 0,
      startTime = now, socketId = sock, active = True, lastUpdate = None\<rparr>"

definition on_session_start ::
  "socket_id \<Rightarrow> string option \<Rightarrow> time \<Rightarrow> world \<Rightarrow> world \<times> emission list" where
  "on_session_start sock data_sessionId now w =
     (let sessionId = start_id sock data_sessionId now in
      (w\<lparr>activeSessions := (activeSessions w)(sessionId \<mapsto> newSession sock sessionId now)\<rparr>,
       [(Broadcast, ev_session_started sessionId now ''New scan session started''),
        (Direct sock, ev_session_confirmed sessionId ''active'')]))"

subsection \<open>\<^verbatim>\<open>scan:result\<close> (lines 90-154)\<close>

text \<open>
  Lines 103-118: the entry stored under \<open>key\<close> once the scan has been added. The product of
  line 105 and the two \<^verbatim>\<open>+=\<close> of lines 108-109 are operations on doubles.
\<close>

definition scanned_entry :: "session \<Rightarrow> string \<Rightarrow> int \<Rightarrow> time \<Rightarrow> item_entry" where
  "scanned_entry s key qty now =
     (let perItem = perItem_of key; addPoints = js_mul perItem qty in
      case map_of (items s) key of
        Some it \<Rightarrow> it\<lparr>quantity := js_add (quantity it) qty,
                     totalPoints := js_add (totalPoints it) addPoints\<rparr>
      | None \<Rightarrow> \<lparr>name = key, quantity = qty, pointsPerItem = perItem,
                 totalPoints = addPoints, lastScanned = now\<rparr>)"

text \<open>Lines 120-128 and 181-189: both totals are recomputed from the whole item object.\<close>

definition recompute :: "session \<Rightarrow> time \<Rightarrow> session" where
  "recompute s now =
     s\<lparr>totalItems := reduce_sum quantity (Object_values (items s)),
       totalPoints_sess := reduce_sum totalPoints (Object_values (items s)),
       lastUpdate := Some now\<rparr>"

text \<open>Lines 103-128: the mutation of the session object.\<close>

definition applyScan :: "session \<Rightarrow> string \<Rightarrow> int \<Rightarrow> time \<Rightarrow> session" where
  "applyScan s key qty now =
     recompute (s\<lparr>items := AList.update key (scanned_entry s key qty now) (items s)\<rparr>) now"

definition snapshot_of :: "session \<Rightarrow> time \<Rightarrow> snapshot" where
  "snapshot_of s now = (totalItems s, totalPoints_sess s, items s, now)"

definition on_scan_result ::
  "socket_id \<Rightarrow> string option \<Rightarrow> string option \<Rightarrow> int option \<Rightarrow> time \<Rightarrow> world
     \<Rightarrow> world \<times> emission list" where
  "on_scan_result sock sessionId itemName quantity_field now w =
     (let qty = (case quantity_field of None \<Rightarrow> 1 | Some q \<Rightarrow> q) in
      if \<not> truthy sessionId \<or> \<not> truthy itemName
      then (w, [(Direct sock, ev_error ''Invalid payload'' sessionId itemName)])
      else
        (case activeSessions_get w sessionId of
           None \<Rightarrow> (w, [(Direct sock, ev_error ''Session not found'' sessionId None)])
         | Some s \<Rightarrow>
             (let sid = String_of sessionId;
                  key = toUpperCase (String_of itemName);
                  item = scanned_entry s key qty now;
                  s' = applyScan s key qty now
              in (w\<lparr>activeSessions := (activeSessions w)(sid \<mapsto> s')\<rparr>,
                  [(Broadcast, ev_scan_update sid item (snapshot_of s' now)),
                   (Broadcast, ev_inventory_update sid key (quantity item) now),
                   (Direct sock, ev_scan_confirmed True item (totalPoints_sess s'))]))))"

subsection \<open>\<^verbatim>\<open>quantity:adjust\<close> (lines 156-209)\<close>

text \<open>Line 159.\<close>

definition adjust_key :: "string option \<Rightarrow> string" where
  "adjust_key itemName = toUpperCase (String_of (or_empty itemName))"

text \<open>Line 171.\<close>

definition newQty_of :: "item_entry \<Rightarrow> int \<Rightarrow> int" where
  "newQty_of item delta = max 0 (quantity item + delta)"

text \<open>Lines 170-189: the mutation of the session object, for the entry \<open>item\<close> found under \<open>key\<close>.\<close>

definition applyAdjustment :: "session \<Rightarrow> string \<Rightarrow> item_entry \<Rightarrow> int \<Rightarrow> time \<Rightarrow> session" where
  "applyAdjustment s key item delta now =
     (let newQty = newQty_of item delta in
      recompute
        (s\<lparr>items :=
             (if newQty = 0 then AList.delete key (items s)
              else AList.update key
                     (item\<lparr>quantity := newQty, totalPoints := pointsPerItem item * newQty,
                           lastScanned := now\<rparr>)
                     (items s))\<rparr>)
        now)"

definition adjust_error :: "socket_id \<Rightarrow> string option \<Rightarrow> string \<Rightarrow> emission" where
  "adjust_error sock sessionId key =
     (Direct sock, ev_error ''Session or item not found'' sessionId (Some key))"

definition on_quantity_adjust ::
  "socket_id \<Rightarrow> string option \<Rightarrow> string option \<Rightarrow> int \<Rightarrow> time \<Rightarrow> world
     \<Rightarrow> world \<times> emission list" where
  "on_quantity_adjust sock sessionId itemName delta now w =
     (let key = adjust_key itemName in
      case activeSessions_get w sessionId of
        None \<Rightarrow> (w, [adjust_error sock sessionId key])
      | Some s \<Rightarrow>
          (case map_of (items s) key of
             None \<Rightarrow> (w, [adjust_error sock sessionId key])
           | Some item \<Rightarrow>
               (let sid = String_of sessionId;
                    newQty = newQty_of item delta;
                    s' = applyAdjustment s key item delta now
                in (w\<lparr>activeSessions := (activeSessions w)(sid \<mapsto> s')\<rparr>,
                    [(Broadcast, ev_quantity_updated sid key newQty (snapshot_of s' now)),
                     (Broadcast, ev_inventory_update sid key newQty now)]))))"

subsection \<open>\<^verbatim>\<open>session:finish\<close> (lines 211-237) and the timers\<close>

definition grace :: time where
  "grace = 30000"

definition on_session_finish ::
  "socket_id \<Rightarrow> string option \<Rightarrow> time \<Rightarrow> world \<Rightarrow> world \<times> emission list" where
  "on_session_finish sock sessionId now w =
     (case activeSessions_get w sessionId of
        None \<Rightarrow> (w, [(Direct sock, ev_error ''Session not found'' None None)])
      | Some s \<Rightarrow>
          (let sid = String_of sessionId in
           (w\<lparr>activeSessions := (activeSessions w)(sid \<mapsto> s\<lparr>active := False\<rparr>),
              timers := timers w @ [(now + grace, sid)]\<rparr>,
            [(Broadcast,
                ev_session_finished sid (totalItems s) (totalPoints_sess s) (items s)
                  (now - startTime s) now),
             (Broadcast, ev_inventory_reset sid)])))"

text \<open>
  The timers phase of the event loop at time \<open>now\<close>: every callback whose delay has elapsed
  runs, in scheduling order, and is gone afterwards. The callback of lines 233-236 is
  \<^verbatim>\<open>activeSessions.delete(sessionId)\<close>.
\<close>

definition timer_callback :: "string \<Rightarrow> (string \<rightharpoonup> session) \<Rightarrow> (string \<rightharpoonup> session)" where
  "timer_callback sessionId m = m(sessionId := None)"

definition due :: "time \<Rightarrow> time \<times> string \<Rightarrow> bool" where
  "due now t = (fst t \<le> now)"

definition timers_phase :: "time \<Rightarrow> world \<Rightarrow> world" where
  "timers_phase now w =
     \<lparr>activeSessions =
        foldl (\<lambda>m t. timer_callback (snd t) m) (activeSessions w) (filter (due now) (timers w)),
      timers = filter (\<lambda>t. \<not> due now t) (timers w)\<rparr>"

subsection \<open>The server as a transition function\<close>

definition on_inbound :: "socket_id \<Rightarrow> time \<Rightarrow> inbound \<Rightarrow> world \<Rightarrow> world \<times> emission list" where
  "on_inbound sock now ev w =
     (case ev of
        session_start sessionId \<Rightarrow> on_session_start sock sessionId now w
      | scan_result sessionId itemName q \<Rightarrow> on_scan_result sock sessionId itemName q now w
      | quantity_adjust sessionId itemName delta \<Rightarrow>
          on_quantity_adjust sock sessionId itemName delta now w
      | session_finish sessionId \<Rightarrow> on_session_finish sock sessionId now w
      | ping \<Rightarrow> (w, [(Direct sock, ev_pong now)]))"

definition handle :: "occurrence \<Rightarrow> world \<Rightarrow> world \<times> emission list" where
  "handle occ w =
     (case occ of
        Connection sock \<Rightarrow>
          (w, [(Direct sock, ev_welcome ''Connected to Express Socket.IO'' sock)])
      | Inbound sock now ev \<Rightarrow> on_inbound sock now ev w
      | TimersPhase now \<Rightarrow> (timers_phase now w, []))"

fun run_from :: "world \<Rightarrow> occurrence list \<Rightarrow> world" where
  "run_from w [] = w"
| "run_from w (occ # occs) = run_from (fst (handle occ w)) occs"

definition run :: "occurrence list \<Rightarrow> world" where
  "run occs = run_from initial_world occs"

subsection \<open>Invariants of the reachable worlds\<close>

text \<open>
  What every stored session satisfies in every world the server can reach: it is stored
  under its own id, its item keys are distinct, every entry carries its key and the point
  value of its key, and the two session totals are the sums over the entries.
\<close>

definition entry_ok :: "string \<Rightarrow> item_entry \<Rightarrow> bool" where
  "entry_ok key e = (name e = key \<and> pointsPerItem e = perItem_of key)"

definition items_ok :: "(string \<times> item_entry) list \<Rightarrow> bool" where
  "items_ok its = (distinct (map fst its) \<and> (\<forall>(key, e) \<in> set its. entry_ok key e))"

definition totals_ok :: "session \<Rightarrow> bool" where
  "totals_ok s =
     (totalItems s = sum_list (map (\<lambda>(key, e). quantity e) (items s)) \<and>
      totalPoints_sess s = sum_list (map (\<lambda>(key, e). totalPoints e) (items s)))"

definition session_ok :: "string \<Rightarrow> session \<Rightarrow> bool" where
  "session_ok k s = (id_sess s = k \<and> items_ok (items s) \<and> totals_ok s)"

definition world_ok :: "world \<Rightarrow> bool" where
  "world_ok w = (\<forall>k s. activeSessions w k = Some s \<longrightarrow> session_ok k s)"

subsection \<open>Points as the product of quantity and point value\<close>

definition product_ok :: "item_entry \<Rightarrow> bool" where
  "product_ok e = (totalPoints e = quantity e * pointsPerItem e)"

definition product_items :: "(string \<times> item_entry) list \<Rightarrow> bool" where
  "product_items its = (\<forall>x \<in> set its. product_ok (snd x))"

definition products_ok :: "world \<Rightarrow> bool" where
  "products_ok w = (\<forall>k s. activeSessions w k = Some s \<longrightarrow> product_items (items s))"






subsection \<open>Occurrences that leave a timer alone\<close>

text \<open>
  A callback with due time \<open>d\<close> can only run in a timers phase at a time \<open>t\<close> with \<open>d \<le> t\<close>;
  every other occurrence is before it is due.
\<close>

definition before_due :: "time \<Rightarrow> occurrence \<Rightarrow> bool" where
  "before_due d occ = (case occ of TimersPhase t \<Rightarrow> t < d | _ \<Rightarrow> True)"

subsection \<open>A concrete run\<close>

text \<open>A session is started and two units of \<^verbatim>\<open>APEL\<close> are scanned into it.\<close>

definition scanned_twice :: "occurrence list" where
  "scanned_twice =
     [Inbound ''c1'' 1000 (session_start (Some ''s1'')),
      Inbound ''c1'' 2000 (scan_result (Some ''s1'') (Some ''APEL'') (Some 2))]"

definition apel_twice :: item_entry where
  "apel_twice =
     \<lparr>name = ''APEL'', quantity = 2, pointsPerItem = 20, totalPoints = 40, lastScanned = 2000\<rparr>"

definition session_scanned_twice :: session where
  "session_scanned_twice =
     \<lparr>id_sess = ''s1'', items = [(''APEL'', apel_twice)], totalItems = 2, totalPoints_sess = 40,
      startTime = 1000, socketId = ''c1'', active = True, lastUpdate = Some 2000\<rparr>"

text \<open>The keys of a session's items, in insertion order.\<close>

definition item_keys :: "session \<Rightarrow> string list" where
  "item_keys s = map fst (items s)"

text \<open>The run above, followed by the \<^verbatim>\<open>session:finish\<close> of the session.\<close>

definition finished_run :: "occurrence list" where
  "finished_run = scanned_twice @ [Inbound ''c1'' 4000 (session_finish (Some ''s1''))]"

text \<open>
  The first run, then: the session is finished at 4000, started again under the same id
  from another connection at 10000, and scanned into at 20000.
\<close>

definition restarted_run :: "occurrence list" where
  "restarted_run =
     finished_run @
     [Inbound ''c2'' 10000 (session_start (Some ''s1'')),
      Inbound ''c2'' 20000 (scan_result (Some ''s1'') (Some ''JERUK'') None)]"

text \<open>Runs in which a scan carries a quantity of 0, or a negative one.\<close>

definition zero_scan_run :: "occurrence list" where
  "zero_scan_run =
     [Inbound ''c1'' 1000 (session_start (Some ''s1'')),
      Inbound ''c1'' 2000 (scan_result (Some ''s1'') (Some ''APEL'') (Some 0))]"

definition negative_scan_run :: "occurrence list" where
  "negative_scan_run =
     scanned_twice @ [Inbound ''c1'' 3000 (scan_result (Some ''s1'') (Some ''apel'') (Some (- 3)))]"

subsection \<open>Positive quantities\<close>

text \<open>
  The scans whose \<^verbatim>\<open>quantity\<close> field is absent or at least 1, and the worlds in which every
  entry of every stored session has a quantity of at least 1.
\<close>

definition positive_scan :: "occurrence \<Rightarrow> bool" where
  "positive_scan occ =
     (case occ of
        Inbound sock now (scan_result sessionId itemName (Some n)) \<Rightarrow> 1 \<le> n
      | _ \<Rightarrow> True)"

definition positive_items :: "(string \<times> item_entry) list \<Rightarrow> bool" where
  "positive_items its = (\<forall>x \<in> set its. 1 \<le> quantity (snd x))"

definition quantities_ok :: "world \<Rightarrow> bool" where
  "quantities_ok w = (\<forall>k s. activeSessions w k = Some s \<longrightarrow> positive_items (items s))"



section \<open>Properties\<close>

subsection \<open>Auxiliary facts\<close>

lemma foldl_add_sum: "foldl (\<lambda>s it. s + f it) a xs = a + sum_list (map f xs)" for a :: int
  by (induction xs arbitrary: a) (simp_all add: add.assoc)

lemma reduce_sum_Object_values:
  "reduce_sum f (Object_values its) = sum_list (map (\<lambda>(key, e). f e) its)"
  by (simp add: reduce_sum_def Object_values_def foldl_add_sum comp_def case_prod_unfold)

lemma bit_length_pos: "0 < n \<Longrightarrow> 0 < bit_length n"
  by (subst bit_length.simps) simp

lemma bit_length_lower: "0 < n \<Longrightarrow> 2 ^ (bit_length n - 1) \<le> n"
proof (induction n rule: bit_length.induct)
  case (1 n)
  show ?case
  proof (cases "n div 2 \<le> 0")
    case True
    with 1(2) show ?thesis
      by (subst bit_length.simps) (simp add: bit_length.simps)
  next
    case False
    with 1 have "2 ^ (bit_length (n div 2) - 1) \<le> n div 2"
      by simp
    moreover from False have "0 < bit_length (n div 2)"
      by (simp add: bit_length_pos)
    ultimately have "2 ^ bit_length (n div 2) \<le> 2 * (n div 2)"
      by (cases "bit_length (n div 2)") simp_all
    then have "2 ^ bit_length (n div 2) \<le> n"
      by linarith
    with 1(2) show ?thesis
      by (subst bit_length.simps) simp
  qed
qed


lemma round_to_even_lower:
  assumes "0 < u" and "u \<le> a"
  shows "0 < round_to_even u a"
proof -
  from assms have "0 < a div u"
    by (simp add: pos_imp_zdiv_pos_iff)
  with assms(1) show ?thesis
    by (simp add: round_to_even_def Let_def)
qed

lemma js_round_positive:
  assumes "1 \<le> x"
  shows "1 \<le> js_round x"
proof -
  from assms have a: "0 < x"
    by simp
  have "(2::int) ^ (bit_length x - 53) \<le> 2 ^ (bit_length x - 1)"
    by (rule power_increasing) simp_all
  also have "\<dots> \<le> x"
    using a by (rule bit_length_lower)
  finally have "0 < round_to_even (2 ^ (bit_length x - 53)) x"
    by (intro round_to_even_lower) simp_all
  with assms show ?thesis
    by (simp add: js_round_def)
qed

lemma set_update_cases: "x \<in> set (AList.update k v al) \<Longrightarrow> x = (k, v) \<or> x \<in> set al"
  by (induction al) (auto split: if_splits)

lemma set_delete_cases: "x \<in> set (AList.delete k al) \<Longrightarrow> x \<in> set al \<and> fst x \<noteq> k"
  by (auto simp: AList.delete_eq)

lemma totals_ok_recompute: "totals_ok (recompute s now)"
  by (simp add: totals_ok_def recompute_def reduce_sum_Object_values)

lemma items_recompute: "items (recompute s now) = items s"
  by (simp add: recompute_def)

lemma id_sess_recompute: "id_sess (recompute s now) = id_sess s"
  by (simp add: recompute_def)

lemma entry_ok_scanned:
  assumes "items_ok (items s)"
  shows "entry_ok key (scanned_entry s key qty now)"
proof (cases "map_of (items s) key")
  case None
  then show ?thesis
    by (simp add: scanned_entry_def entry_ok_def Let_def)
next
  case (Some it)
  then have "(key, it) \<in> set (items s)"
    by (rule map_of_SomeD)
  with assms have "entry_ok key it"
    by (auto simp: items_ok_def)
  with Some show ?thesis
    by (simp add: scanned_entry_def entry_ok_def Let_def)
qed

lemma items_ok_update:
  "items_ok its \<Longrightarrow> entry_ok key e \<Longrightarrow> items_ok (AList.update key e its)"
  unfolding items_ok_def
  by (auto simp: distinct_update dest: set_update_cases)

lemma items_ok_delete: "items_ok its \<Longrightarrow> items_ok (AList.delete key its)"
  unfolding items_ok_def
  by (auto simp: distinct_delete dest: set_delete_cases)

lemma session_ok_applyScan: "session_ok k s \<Longrightarrow> session_ok k (applyScan s key qty now)"
  by (simp add: session_ok_def applyScan_def totals_ok_recompute items_recompute
      id_sess_recompute items_ok_update entry_ok_scanned)

lemma session_ok_applyAdjustment:
  assumes "session_ok k s" and "map_of (items s) key = Some item"
  shows "session_ok k (applyAdjustment s key item delta now)"
proof -
  from assms(2) have "(key, item) \<in> set (items s)"
    by (rule map_of_SomeD)
  with assms(1) have "entry_ok key item"
    by (auto simp: session_ok_def items_ok_def)
  then have "entry_ok key
      (item\<lparr>quantity := newQty_of item delta,
            totalPoints := pointsPerItem item * newQty_of item delta, lastScanned := now\<rparr>)"
    by (simp add: entry_ok_def)
  with assms(1) show ?thesis
    by (simp add: session_ok_def applyAdjustment_def Let_def totals_ok_recompute
        items_recompute id_sess_recompute items_ok_update items_ok_delete)
qed

lemma session_ok_newSession: "session_ok k (newSession sock k now)"
  by (simp add: session_ok_def newSession_def items_ok_def totals_ok_def)

lemma session_ok_inactive: "session_ok k s \<Longrightarrow> session_ok k (s\<lparr>active := False\<rparr>)"
  by (simp add: session_ok_def totals_ok_def)

lemma world_ok_put:
  "world_ok w \<Longrightarrow> session_ok k s \<Longrightarrow> world_ok (w\<lparr>activeSessions := (activeSessions w)(k \<mapsto> s)\<rparr>)"
  by (simp add: world_ok_def)

lemma get_SomeD:
  "activeSessions_get w sessionId = Some s \<Longrightarrow>
     sessionId = Some (String_of sessionId) \<and> activeSessions w (String_of sessionId) = Some s"
  by (cases sessionId) (simp_all add: activeSessions_get_def String_of_def)

lemma world_ok_get: "world_ok w \<Longrightarrow> activeSessions_get w sessionId = Some s \<Longrightarrow>
  session_ok (String_of sessionId) s"
  by (auto simp: world_ok_def dest: get_SomeD)

lemma world_ok_start: "world_ok w \<Longrightarrow> world_ok (fst (on_session_start sock sessionId now w))"
  by (simp add: on_session_start_def Let_def world_ok_put session_ok_newSession)

lemma world_ok_scan:
  "world_ok w \<Longrightarrow> world_ok (fst (on_scan_result sock sessionId itemName q now w))"
  by (auto simp: on_scan_result_def Let_def world_ok_put session_ok_applyScan world_ok_get
      split: option.splits)

lemma world_ok_adjust:
  "world_ok w \<Longrightarrow> world_ok (fst (on_quantity_adjust sock sessionId itemName delta now w))"
  by (auto simp: on_quantity_adjust_def Let_def world_ok_put session_ok_applyAdjustment
      world_ok_get split: option.splits)

lemma timers_world_ok [simp]: "world_ok (w\<lparr>timers := ts\<rparr>) = world_ok w"
  by (simp add: world_ok_def)

lemma world_ok_finish:
  "world_ok w \<Longrightarrow> world_ok (fst (on_session_finish sock sessionId now w))"
  by (auto simp: on_session_finish_def Let_def world_ok_put session_ok_inactive world_ok_get
      split: option.splits)

lemma foldl_timer_callback:
  "foldl (\<lambda>m t. timer_callback (snd t) m) m ts k = (if k \<in> snd ` set ts then None else m k)"
  by (induction ts arbitrary: m) (auto simp: timer_callback_def)

lemma activeSessions_timers_phase:
  "activeSessions (timers_phase now w) k =
     (if k \<in> snd ` set (filter (due now) (timers w)) then None else activeSessions w k)"
  by (simp add: timers_phase_def foldl_timer_callback)

lemma world_ok_timers_phase: "world_ok w \<Longrightarrow> world_ok (timers_phase now w)"
  by (simp add: world_ok_def activeSessions_timers_phase split: if_splits)

lemma world_ok_handle: "world_ok w \<Longrightarrow> world_ok (fst (handle occ w))"
  by (cases occ)
     (auto simp: handle_def on_inbound_def world_ok_start world_ok_scan world_ok_adjust
        world_ok_finish world_ok_timers_phase split: inbound.splits)

lemma world_ok_run_from: "world_ok w \<Longrightarrow> world_ok (run_from w occs)"
  by (induction occs arbitrary: w) (simp_all add: world_ok_handle)

lemma world_ok_initial: "world_ok initial_world"
  by (simp add: world_ok_def initial_world_def)

lemma world_ok_run: "world_ok (run occs)"
  by (simp add: run_def world_ok_run_from world_ok_initial)

lemma session_ok_run: "activeSessions (run occs) k = Some s \<Longrightarrow> session_ok k s"
  using world_ok_run [of occs] by (simp add: world_ok_def)




lemma scan_not_found:
  "truthy sessionId \<Longrightarrow> truthy itemName \<Longrightarrow> activeSessions_get w sessionId = None \<Longrightarrow>
     on_scan_result sock sessionId itemName q now w =
       (w, [(Direct sock, ev_error ''Session not found'' sessionId None)])"
  by (simp add: on_scan_result_def Let_def)

lemma run_scanned_twice: "activeSessions (run scanned_twice) ''s1'' = Some session_scanned_twice"
  by code_simp


subsection \<open>Session totals\<close>



subsection \<open>Scans\<close>








lemma timers_products_ok [simp]: "products_ok (w\<lparr>timers := ts\<rparr>) = products_ok w"
  by (simp add: products_ok_def)













subsection \<open>Adjustments\<close>



text \<open>
  Claim C7. When the session is missing, or it has no entry under the normalised code, a
  \<^verbatim>\<open>quantity:adjust\<close> returns the world as it was and emits exactly one message, the
  direct error \<^verbatim>\<open>Session or item not found\<close>; and in every case the sessions after an
  adjustment are sessions that were there before, with no item key they did not have.
\<close>

theorem adjust_not_found:
  "(activeSessions_get w sessionId = None \<or>
      (\<exists>s. activeSessions_get w sessionId = Some s \<and>
            map_of (items s) (adjust_key itemName) = None) \<longrightarrow>
    on_quantity_adjust sock sessionId itemName delta now w =
      (w, [(Direct sock,
            ev_error ''Session or item not found'' sessionId (Some (adjust_key itemName)))])) \<and>
   (\<forall>k s'. activeSessions (fst (on_quantity_adjust sock sessionId itemName delta now w)) k = Some s'
      \<longrightarrow> (\<exists>s. activeSessions w k = Some s \<and> fst ` set (items s') \<subseteq> fst ` set (items s)))"
proof (intro conjI impI allI)
  assume "activeSessions_get w sessionId = None \<or>
      (\<exists>s. activeSessions_get w sessionId = Some s \<and>
            map_of (items s) (adjust_key itemName) = None)"
  then show "on_quantity_adjust sock sessionId itemName delta now w =
      (w, [(Direct sock,
            ev_error ''Session or item not found'' sessionId (Some (adjust_key itemName)))])"
    by (auto simp: on_quantity_adjust_def adjust_error_def Let_def)
next
  fix k s'
  assume a: "activeSessions (fst (on_quantity_adjust sock sessionId itemName delta now w)) k
      = Some s'"
  show "\<exists>s. activeSessions w k = Some s \<and> fst ` set (items s') \<subseteq> fst ` set (items s)"
  proof (cases "activeSessions_get w sessionId")
    case None
    with a show ?thesis
      by (simp add: on_quantity_adjust_def Let_def)
  next
    case (Some s)
    note get = get_SomeD [OF Some]
    show ?thesis
    proof (cases "map_of (items s) (adjust_key itemName)")
      case None
      with a Some show ?thesis
        by (simp add: on_quantity_adjust_def Let_def)
    next
      case (Some item)
      then have "adjust_key itemName \<in> fst ` set (items s)"
        by (force dest: map_of_SomeD)
      then have "fst ` set (items (applyAdjustment s (adjust_key itemName) item delta now))
          \<subseteq> fst ` set (items s)"
        using dom_delete_subset [of "adjust_key itemName" "items s"]
        by (auto simp: applyAdjustment_def Let_def items_recompute dom_update)
      with a Some \<open>activeSessions_get w sessionId = Some s\<close> get show ?thesis
        by (auto simp: on_quantity_adjust_def Let_def split: if_splits)
    qed
  qed
qed

theorem adjust_not_found_witness:
  "activeSessions_get (run scanned_twice) (Some ''s1'') = Some session_scanned_twice \<and>
   map_of (items session_scanned_twice) (adjust_key (Some ''kiwi'')) = None \<and>
   on_quantity_adjust ''c2'' (Some ''s1'') (Some ''kiwi'') 1 3000 (run scanned_twice) =
     (run scanned_twice,
      [(Direct ''c2'', ev_error ''Session or item not found'' (Some ''s1'')
          (Some (adjust_key (Some ''kiwi''))))])"
proof -
  have get: "activeSessions_get (run scanned_twice) (Some ''s1'') = Some session_scanned_twice"
    by (simp add: activeSessions_get_def run_scanned_twice)
  have key: "adjust_key (Some ''kiwi'') = ''KIWI''"
    by code_simp
  have none: "map_of (items session_scanned_twice) (adjust_key (Some ''kiwi'')) = None"
    by (simp add: key session_scanned_twice_def)
  from get none have "activeSessions_get (run scanned_twice) (Some ''s1'') = None \<or>
      (\<exists>s. activeSessions_get (run scanned_twice) (Some ''s1'') = Some s \<and>
            map_of (items s) (adjust_key (Some ''kiwi'')) = None)"
    by simp
  with adjust_not_found [where w = "run scanned_twice" and sessionId = "Some ''s1''"
      and itemName = "Some ''kiwi''" and sock = "''c2''" and delta = 1 and now = 3000]
  have "on_quantity_adjust ''c2'' (Some ''s1'') (Some ''kiwi'') 1 3000 (run scanned_twice) =
     (run scanned_twice,
      [(Direct ''c2'', ev_error ''Session or item not found'' (Some ''s1'')
          (Some (adjust_key (Some ''kiwi''))))])"
    by blast
  with get none show ?thesis
    by (intro conjI)
qed

lemma finish_not_found:
  "activeSessions_get w sessionId = None \<Longrightarrow>
     on_session_finish sock sessionId now w =
       (w, [(Direct sock, ev_error ''Session not found'' None None)])"
  by (simp add: on_session_finish_def)

lemma finish_found:
  "activeSessions w sid = Some s \<Longrightarrow>
     on_session_finish sock (Some sid) now w =
       (w\<lparr>activeSessions := (activeSessions w)(sid \<mapsto> s\<lparr>active := False\<rparr>),
          timers := timers w @ [(now + 30000, sid)]\<rparr>,
        [(Broadcast, ev_session_finished sid (totalItems s) (totalPoints_sess s) (items s)
            (now - startTime s) now),
         (Broadcast, ev_inventory_reset sid)])"
  by (simp add: on_session_finish_def activeSessions_get_def String_of_def Let_def grace_def)

lemma start_with_id:
  "sid \<noteq> [] \<Longrightarrow>
     on_session_start sock (Some sid) now w =
       (w\<lparr>activeSessions := (activeSessions w)(sid \<mapsto> newSession sock sid now)\<rparr>,
        [(Broadcast, ev_session_started sid now ''New scan session started''),
         (Direct sock, ev_session_confirmed sid ''active'')])"
  by (simp add: on_session_start_def start_id_def Let_def)

lemma timers_inbound:
  "set (timers w) \<subseteq> set (timers (fst (on_inbound sock now ev w)))"
  by (cases ev)
     (auto simp: on_inbound_def on_session_start_def on_scan_result_def on_quantity_adjust_def
        on_session_finish_def Let_def split: option.splits)

lemma timer_kept:
  "(d, k) \<in> set (timers w) \<Longrightarrow> before_due d occ \<Longrightarrow> (d, k) \<in> set (timers (fst (handle occ w)))"
  by (cases occ)
     (auto simp: handle_def before_due_def timers_phase_def due_def
        intro: subsetD [OF timers_inbound])

lemma timer_kept_run:
  "(d, k) \<in> set (timers w) \<Longrightarrow> list_all (before_due d) occs \<Longrightarrow>
     (d, k) \<in> set (timers (run_from w occs))"
  by (induction occs arbitrary: w) (simp_all add: timer_kept)

lemma phase_evicts:
  "(d, k) \<in> set (timers w) \<Longrightarrow> d \<le> t \<Longrightarrow> activeSessions (timers_phase t w) k = None"
  by (force simp: activeSessions_timers_phase due_def)

lemma phase_keeps:
  "k \<notin> snd ` set (filter (due t) (timers w)) \<Longrightarrow>
     activeSessions (timers_phase t w) k = activeSessions w k"
  by (simp add: activeSessions_timers_phase)

subsection \<open>Scanning into a session that is missing or finished\<close>

text \<open>
  Claim C2, as the code has it. The handler looks the id up in the store and never reads
  the \<open>active\<close> flag. With a well-formed payload, a \<^verbatim>\<open>scan:result\<close> fails exactly when
  the store holds no session under the id: the world is returned as it was and the only
  message is the direct error \<^verbatim>\<open>Session not found\<close> with the id. Whenever a session is
  stored under the id, active or not, it is replaced by its scanned version and the two
  broadcasts and the acknowledgment go out.
\<close>

theorem scan_fails_only_without_stored_session:
  assumes "truthy sessionId" and "truthy itemName"
    and "r = on_scan_result sock sessionId itemName q now w"
  shows "(activeSessions_get w sessionId = None \<longrightarrow>
            r = (w, [(Direct sock, ev_error ''Session not found'' sessionId None)])) \<and>
         (\<forall>s. activeSessions_get w sessionId = Some s \<longrightarrow>
            activeSessions (fst r) (String_of sessionId) =
              Some (applyScan s (toUpperCase (String_of itemName))
                      (case q of None \<Rightarrow> 1 | Some n \<Rightarrow> n) now) \<and>
            map fst (snd r) = [Broadcast, Broadcast, Direct sock])"
  using assms
  by (auto simp: scan_not_found on_scan_result_def Let_def)

theorem scan_fails_only_without_stored_session_witness:
  "truthy (Some ''s2'') \<and> truthy (Some ''APEL'') \<and>
   activeSessions_get (run scanned_twice) (Some ''s2'') = None \<and>
   on_scan_result ''c2'' (Some ''s2'') (Some ''APEL'') None 3000 (run scanned_twice) =
     (run scanned_twice, [(Direct ''c2'', ev_error ''Session not found'' (Some ''s2'') None)])"
proof -
  have t: "truthy (Some ''s2'')" "truthy (Some ''APEL'')"
    by (simp_all add: truthy_def)
  have none: "activeSessions_get (run scanned_twice) (Some ''s2'') = None"
    by code_simp
  from scan_fails_only_without_stored_session [OF t refl,
      where w = "run scanned_twice" and sock = "''c2''" and q = None and now = 3000] none
  have "on_scan_result ''c2'' (Some ''s2'') (Some ''APEL'') None 3000 (run scanned_twice) =
     (run scanned_twice, [(Direct ''c2'', ev_error ''Session not found'' (Some ''s2'') None)])"
    by blast
  with t none show ?thesis
    by (intro conjI)
qed

text \<open>
  Claim C2 as stated fails: after start, scan and finish the session is stored with
  \<open>active = False\<close>, and a further scan on its id is broadcast and adds the key
  \<^verbatim>\<open>JERUK\<close> to its items.
\<close>

theorem scan_mutates_finished_session_counterexample:
  "map_option active (activeSessions (run finished_run) ''s1'') = Some False \<and>
   map fst (snd (on_scan_result ''c2'' (Some ''s1'') (Some ''JERUK'') None 5000 (run finished_run)))
     = [Broadcast, Broadcast, Direct ''c2''] \<and>
   map_option item_keys (activeSessions (run finished_run) ''s1'') = Some [''APEL''] \<and>
   map_option item_keys
     (activeSessions
        (fst (on_scan_result ''c2'' (Some ''s1'') (Some ''JERUK'') None 5000 (run finished_run)))
        ''s1'')
     = Some [''APEL'', ''JERUK'']"
  by code_simp

subsection \<open>Starting a session under an id that is in use\<close>

text \<open>
  Claim C3, as the code has it. In every reachable world each stored session carries the
  id it is stored under, so no two stored sessions share an id. A \<^verbatim>\<open>session:start\<close> has
  no failure branch: the effective id is the requested one when that is a non-empty
  string; under it the handler stores a fresh session, whatever was stored there before;
  every other id keeps its session; and the messages are \<^verbatim>\<open>session:started\<close> to all and
  \<^verbatim>\<open>session:confirmed\<close> to the initiator.
\<close>

theorem start_replaces_stored_session:
  assumes "sid = start_id sock data now"
    and "r = on_session_start sock data now (run occs)"
  shows "(\<forall>k s. activeSessions (run occs) k = Some s \<longrightarrow> id_sess s = k) \<and>
         (\<forall>given. data = Some given \<and> given \<noteq> [] \<longrightarrow> sid = given) \<and>
         activeSessions (fst r) sid = Some (newSession sock sid now) \<and>
         (\<forall>k. k \<noteq> sid \<longrightarrow> activeSessions (fst r) k = activeSessions (run occs) k) \<and>
         snd r = [(Broadcast, ev_session_started sid now ''New scan session started''),
                  (Direct sock, ev_session_confirmed sid ''active'')]"
proof -
  have "\<forall>k s. activeSessions (run occs) k = Some s \<longrightarrow> id_sess s = k"
    using session_ok_run by (auto simp: session_ok_def)
  moreover have "\<forall>given. data = Some given \<and> given \<noteq> [] \<longrightarrow> sid = given"
    by (simp add: assms(1) start_id_def)
  ultimately show ?thesis
    by (simp add: assms on_session_start_def Let_def)
qed

theorem start_replaces_stored_session_witness:
  "activeSessions (run scanned_twice) ''s1'' = Some session_scanned_twice \<and>
   id_sess session_scanned_twice = ''s1'' \<and>
   start_id ''c2'' (Some ''s1'') 3000 = ''s1'' \<and>
   activeSessions (fst (on_session_start ''c2'' (Some ''s1'') 3000 (run scanned_twice)))
     (start_id ''c2'' (Some ''s1'') 3000)
     = Some (newSession ''c2'' (start_id ''c2'' (Some ''s1'') 3000) 3000)"
proof -
  note c = start_replaces_stored_session [OF refl refl,
      where sock = "''c2''" and data = "Some ''s1''" and now = 3000 and occs = scanned_twice]
  from c run_scanned_twice have "id_sess session_scanned_twice = ''s1''"
    by blast
  moreover from c have "start_id ''c2'' (Some ''s1'') 3000 = ''s1''"
    by simp
  moreover from c
  have "activeSessions (fst (on_session_start ''c2'' (Some ''s1'') 3000 (run scanned_twice)))
     (start_id ''c2'' (Some ''s1'') 3000)
     = Some (newSession ''c2'' (start_id ''c2'' (Some ''s1'') 3000) 3000)"
    by blast
  ultimately show ?thesis
    using run_scanned_twice by (intro conjI)
qed

text \<open>
  Claim C3 as stated fails: \<^verbatim>\<open>s1\<close> is stored, active and holds \<^verbatim>\<open>APEL\<close>; a second
  start under \<^verbatim>\<open>s1\<close> from another connection emits no error and leaves a fresh, empty
  session under that id.
\<close>

theorem start_on_active_id_counterexample:
  "map_option active (activeSessions (run scanned_twice) ''s1'') = Some True \<and>
   map_option item_keys (activeSessions (run scanned_twice) ''s1'') = Some [''APEL''] \<and>
   snd (on_session_start ''c2'' (Some ''s1'') 3000 (run scanned_twice)) =
     [(Broadcast, ev_session_started ''s1'' 3000 ''New scan session started''),
      (Direct ''c2'', ev_session_confirmed ''s1'' ''active'')] \<and>
   activeSessions (fst (on_session_start ''c2'' (Some ''s1'') 3000 (run scanned_twice))) ''s1'' =
     Some \<lparr>id_sess = ''s1'', items = [], totalItems = 0, totalPoints_sess = 0,
           startTime = 3000, socketId = ''c2'', active = True, lastUpdate = None\<rparr>"
  by code_simp

subsection \<open>Finish and deferred eviction\<close>

text \<open>
  Claim C9. A \<^verbatim>\<open>session:finish\<close> at time \<open>now\<close> on a stored session marks it inactive and
  adds a timer for its id, due at \<open>now + 30000\<close>. Whatever occurs next, as long as no timers
  phase at or after the due time is among it, the timer stays pending, and the timers phase
  at any \<open>t\<close> with \<open>now + 30000 \<le> t\<close> leaves no session under the id: a finish or a scan on
  the id then changes nothing and answers \<^verbatim>\<open>Session not found\<close>. A timers phase before the
  due time keeps the session, unless an earlier timer for the same id was pending.
\<close>

theorem finish_then_eviction:
  assumes "activeSessions w sid = Some s"
    and "w1 = fst (on_session_finish sock (Some sid) now w)"
    and "list_all (before_due (now + 30000)) occs"
    and "now + 30000 \<le> t"
    and "w2 = timers_phase t (run_from w1 occs)"
  shows "activeSessions w1 sid = Some (s\<lparr>active := False\<rparr>) \<and>
         timers w1 = timers w @ [(now + 30000, sid)] \<and>
         (now + 30000, sid) \<in> set (timers (run_from w1 occs)) \<and>
         activeSessions w2 sid = None \<and>
         on_session_finish c (Some sid) t' w2 =
           (w2, [(Direct c, ev_error ''Session not found'' None None)]) \<and>
         (sid \<noteq> [] \<and> itemName \<noteq> [] \<longrightarrow>
            on_scan_result c (Some sid) (Some itemName) q t' w2 =
              (w2, [(Direct c, ev_error ''Session not found'' (Some sid) None)])) \<and>
         (\<forall>u. u < now + 30000 \<and> sid \<notin> snd ` set (timers w) \<longrightarrow>
            activeSessions (timers_phase u w1) sid = Some (s\<lparr>active := False\<rparr>))"
proof -
  have w1: "w1 = w\<lparr>activeSessions := (activeSessions w)(sid \<mapsto> s\<lparr>active := False\<rparr>),
                   timers := timers w @ [(now + 30000, sid)]\<rparr>"
    by (simp add: assms(1,2) finish_found)
  then have pending: "(now + 30000, sid) \<in> set (timers (run_from w1 occs))"
    by (intro timer_kept_run assms(3)) simp
  then have gone: "activeSessions w2 sid = None"
    unfolding assms(5) using assms(4) by (rule phase_evicts)
  then have get: "activeSessions_get w2 (Some sid) = None"
    by (simp add: activeSessions_get_def)
  have early: "activeSessions (timers_phase u w1) sid = Some (s\<lparr>active := False\<rparr>)"
    if "u < now + 30000" and "sid \<notin> snd ` set (timers w)" for u
  proof -
    from that have "sid \<notin> snd ` set (filter (due u) (timers w1))"
      by (auto simp: w1 due_def)
    then show ?thesis
      by (simp add: phase_keeps) (simp add: w1)
  qed
  from w1 pending gone early show ?thesis
    by (simp add: finish_not_found [OF get] scan_not_found [OF _ _ get] truthy_def)
qed

theorem finish_then_eviction_witness:
  "activeSessions (run scanned_twice) ''s1'' = Some session_scanned_twice \<and>
   list_all (before_due (4000 + 30000))
     [Inbound ''c2'' 10000 (scan_result (Some ''s1'') (Some ''JERUK'') None), TimersPhase 20000] \<and>
   (4000::int) + 30000 \<le> 34000 \<and>
   activeSessions
     (timers_phase 34000
        (run_from (fst (on_session_finish ''c1'' (Some ''s1'') 4000 (run scanned_twice)))
           [Inbound ''c2'' 10000 (scan_result (Some ''s1'') (Some ''JERUK'') None),
            TimersPhase 20000]))
     ''s1'' = None"
proof -
  have b: "list_all (before_due (4000 + 30000))
     [Inbound ''c2'' 10000 (scan_result (Some ''s1'') (Some ''JERUK'') None), TimersPhase 20000]"
    by (simp add: before_due_def)
  have t: "(4000::int) + 30000 \<le> 34000"
    by simp
  from finish_then_eviction [OF run_scanned_twice refl b t refl]
  have "activeSessions
     (timers_phase 34000
        (run_from (fst (on_session_finish ''c1'' (Some ''s1'') 4000 (run scanned_twice)))
           [Inbound ''c2'' 10000 (scan_result (Some ''s1'') (Some ''JERUK'') None),
            TimersPhase 20000]))
     ''s1'' = None"
    by blast
  with run_scanned_twice b t show ?thesis
    by (intro conjI)
qed

text \<open>
  Claim C10. No occurrence other than the timers phase in which it runs removes a pending
  timer: no handler cancels one. The callback deletes by id, whatever is stored there. So
  when a stored session is finished at \<open>t0\<close> and a session is then started under the same id,
  the store holds a fresh active session under the id, the timer of the finish is still
  pending, and the timers phase at any \<open>t\<close> with \<open>t0 + 30000 \<le> t\<close> removes that session.
\<close>

theorem pending_eviction_removes_restarted_session:
  assumes "activeSessions w sid = Some s" and "sid \<noteq> []"
    and "w1 = fst (on_session_finish sock (Some sid) t0 w)"
    and "w2 = fst (on_session_start sock' (Some sid) t1 w1)"
    and "t0 + 30000 \<le> t"
  shows "(\<forall>occ d k. (d, k) \<in> set (timers w) \<and> before_due d occ \<longrightarrow>
            (d, k) \<in> set (timers (fst (handle occ w)))) \<and>
         timer_callback sid (activeSessions w2) sid = None \<and>
         activeSessions w2 sid = Some (newSession sock' sid t1) \<and>
         active (newSession sock' sid t1) \<and>
         timers w2 = timers w @ [(t0 + 30000, sid)] \<and>
         activeSessions (timers_phase t w2) sid = None"
proof -
  have w2: "w2 = w\<lparr>activeSessions := (activeSessions w)(sid \<mapsto> newSession sock' sid t1),
                   timers := timers w @ [(t0 + 30000, sid)]\<rparr>"
    by (simp add: assms(1-4) finish_found start_with_id)
  then have "(t0 + 30000, sid) \<in> set (timers w2)"
    by simp
  then have "activeSessions (timers_phase t w2) sid = None"
    using assms(5) by (rule phase_evicts)
  then show ?thesis
    by (simp add: w2 timer_kept timer_callback_def newSession_def)
qed

theorem pending_eviction_removes_restarted_session_witness:
  "activeSessions (run scanned_twice) ''s1'' = Some session_scanned_twice \<and>
   ''s1'' \<noteq> [] \<and> (4000::int) + 30000 \<le> 34000 \<and>
   activeSessions
     (fst (on_session_start ''c2'' (Some ''s1'') 10000
        (fst (on_session_finish ''c1'' (Some ''s1'') 4000 (run scanned_twice)))))
     ''s1'' = Some (newSession ''c2'' ''s1'' 10000) \<and>
   activeSessions
     (timers_phase 34000
        (fst (on_session_start ''c2'' (Some ''s1'') 10000
           (fst (on_session_finish ''c1'' (Some ''s1'') 4000 (run scanned_twice))))))
     ''s1'' = None"
proof -
  have n: "''s1'' \<noteq> []"
    by simp
  have t: "(4000::int) + 30000 \<le> 34000"
    by simp
  note c = pending_eviction_removes_restarted_session [OF run_scanned_twice n refl refl t,
      where sock = "''c1''" and sock' = "''c2''" and ?t1.0 = 10000]
  from c have "activeSessions
     (fst (on_session_start ''c2'' (Some ''s1'') 10000
        (fst (on_session_finish ''c1'' (Some ''s1'') 4000 (run scanned_twice)))))
     ''s1'' = Some (newSession ''c2'' ''s1'' 10000)"
    by blast
  moreover from c have "activeSessions
     (timers_phase 34000
        (fst (on_session_start ''c2'' (Some ''s1'') 10000
           (fst (on_session_finish ''c1'' (Some ''s1'') 4000 (run scanned_twice))))))
     ''s1'' = None"
    by blast
  ultimately show ?thesis
    using run_scanned_twice n t by (intro conjI)
qed

text \<open>
  The same on a whole run: the restarted session is active and has been scanned into, the
  timer of the earlier finish is the only one pending, and the timers phase at its due time
  empties the id.
\<close>

lemma restarted_session_evicted:
  "map_option item_keys (activeSessions (run restarted_run) ''s1'') = Some [''JERUK'']
  \<and> map_option active (activeSessions (run restarted_run) ''s1'') = Some True
  \<and> timers (run restarted_run) = [(34000, ''s1'')]
  \<and> activeSessions (run (restarted_run @ [TimersPhase 34000])) ''s1'' = None"
  by code_simp

subsection \<open>Quantities of the entries\<close>

lemma positive_items_update:
  "positive_items its \<Longrightarrow> 1 \<le> quantity e \<Longrightarrow> positive_items (AList.update key e its)"
  by (auto simp: positive_items_def dest!: set_update_cases)

lemma positive_items_delete: "positive_items its \<Longrightarrow> positive_items (AList.delete key its)"
  by (auto simp: positive_items_def dest!: set_delete_cases)

lemma positive_items_lookup:
  "positive_items its \<Longrightarrow> map_of its key = Some e \<Longrightarrow> 1 \<le> quantity e"
  by (auto simp: positive_items_def dest!: map_of_SomeD)

lemma quantities_ok_put:
  "quantities_ok w \<Longrightarrow> positive_items (items s) \<Longrightarrow>
     quantities_ok (w\<lparr>activeSessions := (activeSessions w)(k \<mapsto> s)\<rparr>)"
  by (simp add: quantities_ok_def)

lemma quantities_ok_get:
  "quantities_ok w \<Longrightarrow> activeSessions_get w sessionId = Some s \<Longrightarrow> positive_items (items s)"
  by (auto simp: quantities_ok_def dest: get_SomeD)

lemma positive_items_applyScan:
  assumes "positive_items (items s)" and "1 \<le> qty"
  shows "positive_items (items (applyScan s key qty now))"
proof -
  have "1 \<le> quantity (scanned_entry s key qty now)"
  proof (cases "map_of (items s) key")
    case None
    with assms(2) show ?thesis
      by (simp add: scanned_entry_def Let_def)
  next
    case (Some it)
    from positive_items_lookup [OF assms(1) Some] assms(2)
    have "1 \<le> js_round (quantity it + qty)"
      by (intro js_round_positive) simp
    with Some show ?thesis
      by (simp add: scanned_entry_def Let_def js_add_def)
  qed
  with assms(1) show ?thesis
    by (simp add: applyScan_def items_recompute positive_items_update)
qed

lemma positive_items_applyAdjustment:
  "positive_items (items s) \<Longrightarrow> positive_items (items (applyAdjustment s key item delta now))"
  by (simp add: applyAdjustment_def Let_def items_recompute newQty_of_def
      positive_items_update positive_items_delete)

lemma quantities_ok_scan:
  assumes "quantities_ok w" and "1 \<le> (case q of None \<Rightarrow> 1 | Some n \<Rightarrow> n)"
  shows "quantities_ok (fst (on_scan_result sock sessionId itemName q now w))"
  using assms
  by (auto simp: on_scan_result_def Let_def quantities_ok_put positive_items_applyScan
      quantities_ok_get split: option.splits)

lemma quantities_ok_adjust:
  "quantities_ok w \<Longrightarrow>
     quantities_ok (fst (on_quantity_adjust sock sessionId itemName delta now w))"
  by (auto simp: on_quantity_adjust_def Let_def quantities_ok_put positive_items_applyAdjustment
      quantities_ok_get split: option.splits)

lemma quantities_ok_start:
  "quantities_ok w \<Longrightarrow> quantities_ok (fst (on_session_start sock sessionId now w))"
  by (simp add: on_session_start_def Let_def quantities_ok_put newSession_def positive_items_def)

lemma timers_quantities_ok [simp]: "quantities_ok (w\<lparr>timers := ts\<rparr>) = quantities_ok w"
  by (simp add: quantities_ok_def)

lemma quantities_ok_finish:
  "quantities_ok w \<Longrightarrow> quantities_ok (fst (on_session_finish sock sessionId now w))"
  by (auto simp: on_session_finish_def Let_def quantities_ok_put quantities_ok_get
      split: option.splits)

lemma quantities_ok_timers_phase: "quantities_ok w \<Longrightarrow> quantities_ok (timers_phase now w)"
  by (simp add: quantities_ok_def activeSessions_timers_phase split: if_splits)

lemma quantities_ok_handle:
  assumes "quantities_ok w" and "positive_scan occ"
  shows "quantities_ok (fst (handle occ w))"
proof (cases occ)
  case (Connection sock)
  with assms(1) show ?thesis
    by (simp add: handle_def)
next
  case (TimersPhase now)
  with assms(1) show ?thesis
    by (simp add: handle_def quantities_ok_timers_phase)
next
  case (Inbound sock now ev)
  show ?thesis
  proof (cases ev)
    case (scan_result sessionId itemName q)
    with Inbound assms(2) have "1 \<le> (case q of None \<Rightarrow> 1 | Some n \<Rightarrow> n)"
      by (simp add: positive_scan_def split: option.splits)
    with scan_result Inbound assms(1) show ?thesis
      by (simp add: handle_def on_inbound_def quantities_ok_scan)
  qed (use Inbound assms(1) in \<open>simp_all add: handle_def on_inbound_def quantities_ok_start
        quantities_ok_adjust quantities_ok_finish\<close>)
qed

lemma quantities_ok_run_from:
  "quantities_ok w \<Longrightarrow> list_all positive_scan occs \<Longrightarrow> quantities_ok (run_from w occs)"
  by (induction occs arbitrary: w) (simp_all add: quantities_ok_handle)

lemma quantities_ok_initial: "quantities_ok initial_world"
  by (simp add: quantities_ok_def initial_world_def)

text \<open>
  As long as every scan carries a quantity of at least 1 (or none, which counts as 1), every
  entry of every stored session has a quantity of at least 1: the adjust handler removes the
  entry it brings to 0, and nothing else lowers a quantity.
\<close>

lemma quantities_ok_run: "list_all positive_scan occs \<Longrightarrow> quantities_ok (run occs)"
  by (simp add: run_def quantities_ok_run_from quantities_ok_initial)

text \<open>
  Claim C1 fails on the scan handler, which stores the \<^verbatim>\<open>quantity\<close> field as it comes. A
  first scan with quantity 0 leaves an entry with quantity 0 in the session; a scan with
  quantity \<open>- 3\<close> on an entry of quantity 2 leaves it there with quantity \<open>- 1\<close>.
\<close>

theorem scan_keeps_nonpositive_quantity:
  "map_option items (activeSessions (run zero_scan_run) ''s1'') =
     Some [(''APEL'', \<lparr>name = ''APEL'', quantity = 0, pointsPerItem = 20, totalPoints = 0,
                       lastScanned = 2000\<rparr>)] \<and>
   map_option items (activeSessions (run negative_scan_run) ''s1'') =
     Some [(''APEL'', \<lparr>name = ''APEL'', quantity = - 1, pointsPerItem = 20, totalPoints = - 20,
                       lastScanned = 2000\<rparr>)]"
  by code_simp

subsection \<open>Error replies\<close>

text \<open>
  Every validation failure returns the world as it was and emits one direct \<^verbatim>\<open>error\<close>
  (\<open>scan_invalid_payload\<close>, \<open>scan_not_found\<close>, \<open>finish_not_found\<close> and the adjust handler
  above). The error of \<^verbatim>\<open>scan:result\<close> for an unknown id carries the id.
\<close>

lemma scan_error_has_session_id:
  "on_scan_result ''c2'' (Some ''ghost'') (Some ''APEL'') None 3000 (run scanned_twice) =
     (run scanned_twice, [(Direct ''c2'', ev_error ''Session not found'' (Some ''ghost'') None)])"
proof -
  have "activeSessions_get (run scanned_twice) (Some ''ghost'') = None"
    by code_simp
  then show ?thesis
    by (simp add: scan_not_found truthy_def)
qed

text \<open>
  Claim C8 fails on the finish handler: for the same unknown id, the error of
  \<^verbatim>\<open>session:finish\<close> carries the message only, neither the id nor any other field.
\<close>

theorem finish_error_has_no_session_id:
  "on_session_finish ''c2'' (Some ''ghost'') 3000 (run scanned_twice) =
     (run scanned_twice, [(Direct ''c2'', ev_error ''Session not found'' None None)])"
proof -
  have "activeSessions_get (run scanned_twice) (Some ''ghost'') = None"
    by code_simp
  then show ?thesis
    by (rule finish_not_found)
qed

end
